theory Spec2Isabelle
  imports Complex_Main
begin

section \<open>HotelJT: the reservation lifecycle and the period report\<close>

text \<open>
  A shallow embedding of \<^verbatim>\<open>src/app.py\<close>: the three tables, the booking views that
  mutate the \<^verbatim>\<open>bookings\<close> table (\<^verbatim>\<open>new_booking\<close>, \<^verbatim>\<open>booking_edit\<close>,
  \<^verbatim>\<open>booking_checkin\<close>, \<^verbatim>\<open>booking_checkout\<close>, \<^verbatim>\<open>booking_cancel\<close>) and the figures of
  \<^verbatim>\<open>reports\<close>.

  Conventions of the model.
  \<^item> A \<^verbatim>\<open>datetime.date\<close> is its proleptic ordinal (\<^verbatim>\<open>date.toordinal()\<close>), an \<open>int\<close>;
    \<^verbatim>\<open>(a - b).days\<close> is \<open>a - b\<close>.
  \<^item> A \<^verbatim>\<open>Numeric(10, 2)\<close> amount is the number of hundredths, an \<open>int\<close>; a
    \<^verbatim>\<open>Decimal\<close> times an \<^verbatim>\<open>int\<close> is exact, and so is the product here.
  \<^item> A table is the list of its rows in row order; a query without \<^verbatim>\<open>order_by\<close> scans
    the rows in that order, and \<^verbatim>\<open>.first()\<close> takes the head of the result.
  \<^item> A relationship attribute (\<^verbatim>\<open>b.room\<close>, \<^verbatim>\<open>b.guest\<close>) of a row loaded from the session
    is the row the foreign key names, \<^verbatim>\<open>None\<close> when there is no such row. On an object
    that is not in a session nothing is loaded and the attribute is \<^verbatim>\<open>None\<close>. Reading
    an attribute of \<^verbatim>\<open>None\<close> raises \<^verbatim>\<open>AttributeError\<close>.
  \<^item> In a template, calling a method of \<^verbatim>\<open>None\<close> raises \<^verbatim>\<open>UndefinedError\<close>.
  \<^item> A view takes the form fields already converted (\<^verbatim>\<open>int(...)\<close>, \<^verbatim>\<open>strptime\<close>) and
    the store, and returns its outcome together with the store after the request.
    A request that ends before \<^verbatim>\<open>db.session.commit()\<close> leaves the store as it was.
\<close>

subsection \<open>Data model\<close>

type_synonym date = int
type_synonym money = int

text \<open>The four values the code writes to \<^verbatim>\<open>Booking.status\<close>.\<close>

datatype status = Reservado | Checkin | Checkout | Cancelado

record room =
  r_id :: int
  number :: string
  room_type :: string
  rate :: money

record guest =
  g_id :: int
  name :: string
  document :: "string option"
  phone :: "string option"
  email :: "string option"

record booking =
  b_id :: int
  room_id :: int
  guest_id :: int
  check_in :: date
  check_out :: date
  status :: status
  b_notes :: "string option"
  total_amount :: money
  created_at :: int

record store =
  rooms :: "room list"
  guests :: "guest list"
  bookings :: "booking list"

text \<open>
  What a request can end with instead of its success page. The flash messages of the
  source are named after the error kinds they stand for:
  \<^item> \<open>InvalidDateRange\<close>: \<^verbatim>\<open>"Data de check-out deve ser apos check-in"\<close>;
  \<^item> \<open>RoomUnavailable n\<close>: \<^verbatim>\<open>"Conflito: quarto ja reservado/ocupado por {n} nesse periodo."\<close>;
  \<^item> \<open>InvalidTransition\<close>: the three \<^verbatim>\<open>"Operacao invalida. ..."\<close> messages;
  \<^item> \<open>NotFound\<close>: the 404 of \<^verbatim>\<open>get_or_404\<close>;
  \<^item> \<open>AttributeError\<close>: an attribute read on \<^verbatim>\<open>None\<close>;
  \<^item> \<open>ZeroDivisionError\<close>: a division by zero;
  \<^item> \<open>UndefinedError\<close>: a template that calls a method of \<^verbatim>\<open>None\<close>;
  \<^item> \<open>ValidationError EndNotAfterStart\<close>: \<^verbatim>\<open>"Data final deve ser maior que data inicial"\<close>;
  \<^item> \<open>ValidationError InvalidDates\<close>: \<^verbatim>\<open>"Datas invalidas"\<close>.
\<close>

datatype validation = EndNotAfterStart | InvalidDates

datatype error =
    InvalidDateRange
  | RoomUnavailable string
  | InvalidTransition
  | NotFound
  | AttributeError
  | ZeroDivisionError
  | UndefinedError
  | ValidationError validation

subsection \<open>Queries\<close>

definition first :: "'a list \<Rightarrow> 'a option" where
  "first xs = (case xs of [] \<Rightarrow> None | x # _ \<Rightarrow> Some x)"

definition find_room :: "store \<Rightarrow> int \<Rightarrow> room option" where
  "find_room s i = first (filter (\<lambda>r. r_id r = i) (rooms s))"

definition find_guest :: "store \<Rightarrow> int \<Rightarrow> guest option" where
  "find_guest s i = first (filter (\<lambda>g. g_id g = i) (guests s))"

text \<open>\<^verbatim>\<open>Booking.query.get_or_404(booking_id)\<close>, with \<open>None\<close> for the 404.\<close>

definition find_booking :: "store \<Rightarrow> int \<Rightarrow> booking option" where
  "find_booking s i = first (filter (\<lambda>b. b_id b = i) (bookings s))"

subsection \<open>\<^verbatim>\<open>Booking.nights\<close> and \<^verbatim>\<open>Booking.compute_amount\<close>\<close>

definition nights :: "booking \<Rightarrow> int" where
  "nights b = max (check_out b - check_in b) 1"

text \<open>
  \<^verbatim>\<open>(self.room.rate or Decimal("0.00")) * self.nights()\<close>. The first argument is the
  value of \<^verbatim>\<open>self.room\<close> at the call.
\<close>

definition compute_amount :: "room option \<Rightarrow> booking \<Rightarrow> error + money" where
  "compute_amount self_room b =
     (case self_room of
        None \<Rightarrow> Inl AttributeError
      | Some r \<Rightarrow> Inr ((if rate r = 0 then 0 else rate r) * nights b))"

subsection \<open>The booking views\<close>

text \<open>\<^verbatim>\<open>Booking.status.in_(["reservado", "checkin"])\<close>\<close>

definition active :: "booking \<Rightarrow> bool" where
  "active b \<longleftrightarrow> status b = Reservado \<or> status b = Checkin"

text \<open>
  The conflict filter shared by \<^verbatim>\<open>new_booking\<close> and \<^verbatim>\<open>booking_edit\<close>: same room, active
  status, \<^verbatim>\<open>Booking.check_in < check_out\<close> and \<^verbatim>\<open>Booking.check_out > check_in\<close>.
\<close>

definition overlaps :: "int \<Rightarrow> date \<Rightarrow> date \<Rightarrow> booking \<Rightarrow> bool" where
  "overlaps rid ci co b \<longleftrightarrow>
     room_id b = rid \<and> active b \<and> check_in b < co \<and> check_out b > ci"

definition new_booking_conflicts :: "store \<Rightarrow> int \<Rightarrow> date \<Rightarrow> date \<Rightarrow> booking list" where
  "new_booking_conflicts s rid ci co = filter (overlaps rid ci co) (bookings s)"

definition booking_edit_conflicts :: "store \<Rightarrow> int \<Rightarrow> int \<Rightarrow> date \<Rightarrow> date \<Rightarrow> booking list" where
  "booking_edit_conflicts s booking_id rid ci co =
     filter (\<lambda>b. b_id b \<noteq> booking_id \<and> overlaps rid ci co b) (bookings s)"

text \<open>The integer primary key given to an inserted row: one more than the largest in use.\<close>

definition next_id :: "booking list \<Rightarrow> int" where
  "next_id bs = foldr max (map b_id bs) 0 + 1"

text \<open>\<^verbatim>\<open>UPDATE bookings SET ... WHERE id = b.id\<close>\<close>

definition update_booking :: "booking \<Rightarrow> booking list \<Rightarrow> booking list" where
  "update_booking b' bs = map (\<lambda>x. if b_id x = b_id b' then b' else x) bs"

text \<open>The flash that names the conflicting guest reads \<^verbatim>\<open>conflict.guest.name\<close>.\<close>

definition conflict_flash :: "store \<Rightarrow> booking \<Rightarrow> error" where
  "conflict_flash s conflict =
     (case find_guest s (guest_id conflict) of
        None \<Rightarrow> AttributeError
      | Some g \<Rightarrow> RoomUnavailable (name g))"

text \<open>
  \<^verbatim>\<open>new_booking\<close>, the POST branch. \<open>now\<close> is the clock reading that fills
  \<^verbatim>\<open>created_at\<close>. On success the outcome is the id of the new row. The view calls
  \<^verbatim>\<open>b.compute_amount()\<close> on the \<^verbatim>\<open>Booking\<close> it has just built, before
  \<^verbatim>\<open>db.session.add(b)\<close>: \<^verbatim>\<open>b\<close> is in no session there, so \<^verbatim>\<open>b.room\<close> is \<^verbatim>\<open>None\<close>.
\<close>

definition new_booking ::
  "int \<Rightarrow> int \<Rightarrow> int \<Rightarrow> date \<Rightarrow> date \<Rightarrow> string option \<Rightarrow> store \<Rightarrow> (error + int) \<times> store" where
  "new_booking now room_id_form guest_id_form ci co notes_form s =
     (if co \<le> ci then (Inl InvalidDateRange, s)
      else (case first (new_booking_conflicts s room_id_form ci co) of
        Some conflict \<Rightarrow> (Inl (conflict_flash s conflict), s)
      | None \<Rightarrow>
          (let b = \<lparr>b_id = next_id (bookings s), room_id = room_id_form,
                    guest_id = guest_id_form, check_in = ci, check_out = co,
                    status = Reservado, b_notes = notes_form, total_amount = 0,
                    created_at = now\<rparr>
           in case compute_amount None b of
                Inl e \<Rightarrow> (Inl e, s)
              | Inr amount \<Rightarrow>
                  (Inr (b_id b), s\<lparr>bookings := bookings s @ [b\<lparr>total_amount := amount\<rparr>]\<rparr>))))"

text \<open>
  \<^verbatim>\<open>booking_edit\<close>, the POST branch. \<^verbatim>\<open>b\<close> is a row of the session, and \<^verbatim>\<open>b.room\<close>,
  first read after \<^verbatim>\<open>b.room_id\<close> is set, is the row the new \<^verbatim>\<open>room_id\<close> names.
\<close>

definition booking_edit ::
  "int \<Rightarrow> int \<Rightarrow> int \<Rightarrow> date \<Rightarrow> date \<Rightarrow> string option \<Rightarrow> store \<Rightarrow> (error + int) \<times> store" where
  "booking_edit booking_id room_id_form guest_id_form ci co notes_form s =
     (case find_booking s booking_id of
        None \<Rightarrow> (Inl NotFound, s)
      | Some b \<Rightarrow>
          if co \<le> ci then (Inl InvalidDateRange, s)
          else (case first (booking_edit_conflicts s booking_id room_id_form ci co) of
            Some conflict \<Rightarrow> (Inl (conflict_flash s conflict), s)
          | None \<Rightarrow>
              (let b1 = b\<lparr>room_id := room_id_form, guest_id := guest_id_form,
                          check_in := ci, check_out := co, b_notes := notes_form\<rparr>
               in case compute_amount (find_room s (room_id b1)) b1 of
                    Inl e \<Rightarrow> (Inl e, s)
                  | Inr amount \<Rightarrow>
                      (Inr (b_id b),
                       s\<lparr>bookings := update_booking (b1\<lparr>total_amount := amount\<rparr>) (bookings s)\<rparr>))))"

definition booking_checkin :: "int \<Rightarrow> store \<Rightarrow> (error + int) \<times> store" where
  "booking_checkin booking_id s =
     (case find_booking s booking_id of
        None \<Rightarrow> (Inl NotFound, s)
      | Some b \<Rightarrow>
          if status b \<noteq> Reservado then (Inl InvalidTransition, s)
          else (Inr (b_id b), s\<lparr>bookings := update_booking (b\<lparr>status := Checkin\<rparr>) (bookings s)\<rparr>))"

text \<open>\<open>today\<close> is the value of \<^verbatim>\<open>today()\<close> at the request.\<close>

definition booking_checkout :: "date \<Rightarrow> int \<Rightarrow> store \<Rightarrow> (error + int) \<times> store" where
  "booking_checkout today booking_id s =
     (case find_booking s booking_id of
        None \<Rightarrow> (Inl NotFound, s)
      | Some b \<Rightarrow>
          if status b \<noteq> Checkin then (Inl InvalidTransition, s)
          else (let b1 = b\<lparr>check_out := today\<rparr>
                in case compute_amount (find_room s (room_id b1)) b1 of
                     Inl e \<Rightarrow> (Inl e, s)
                   | Inr amount \<Rightarrow>
                       (Inr (b_id b),
                        s\<lparr>bookings :=
                            update_booking (b1\<lparr>total_amount := amount, status := Checkout\<rparr>)
                              (bookings s)\<rparr>)))"

definition booking_cancel :: "int \<Rightarrow> store \<Rightarrow> (error + int) \<times> store" where
  "booking_cancel booking_id s =
     (case find_booking s booking_id of
        None \<Rightarrow> (Inl NotFound, s)
      | Some b \<Rightarrow>
          if status b = Checkout \<or> status b = Cancelado then (Inl InvalidTransition, s)
          else (Inr (b_id b), s\<lparr>bookings := update_booking (b\<lparr>status := Cancelado\<rparr>) (bookings s)\<rparr>))"

subsection \<open>The period report\<close>

text \<open>
  What \<^verbatim>\<open>reports\<close> hands to its template (\<^verbatim>\<open>start\<close>, \<^verbatim>\<open>end\<close>, \<^verbatim>\<open>revenue\<close>, \<^verbatim>\<open>rate\<close>) and
  what it has flashed. The rate is a Python float, modelled as a real number.
\<close>

record report =
  start_date :: "date option"
  end_date :: "date option"
  total_revenue :: money
  occupation_rate :: real
  flashed :: "error list"

text \<open>
  The choice of the period. \<open>strptime\<close> stands for
  \<^verbatim>\<open>datetime.strptime(_, "%Y-%m-%d").date()\<close>, with \<open>None\<close> for its \<^verbatim>\<open>ValueError\<close>, and
  \<open>replace_day1\<close> for \<^verbatim>\<open>_.replace(day=1)\<close>; both belong to the standard library. A form
  field is \<open>None\<close> when the request has no such field; \<^verbatim>\<open>if start_str and end_str\<close> asks
  for two present, non-empty strings.
\<close>

definition report_period ::
  "(string \<Rightarrow> date option) \<Rightarrow> (date \<Rightarrow> date) \<Rightarrow> date \<Rightarrow> string option \<Rightarrow> string option
     \<Rightarrow> date option \<times> date option \<times> error list" where
  "report_period strptime replace_day1 today start_str end_str =
     (let month = (let sd = replace_day1 today
                   in (Some sd, Some (replace_day1 (sd + 32)), []))
      in case (start_str, end_str) of
           (Some a, Some b) \<Rightarrow>
             if a \<noteq> [] \<and> b \<noteq> [] then
               (case strptime a of
                  None \<Rightarrow> (None, None, [ValidationError InvalidDates])
                | Some sd \<Rightarrow>
                    (case strptime b of
                       None \<Rightarrow> (None, None, [ValidationError InvalidDates])
                     | Some ed \<Rightarrow>
                         if ed \<le> sd then (None, None, [ValidationError EndNotAfterStart])
                         else (Some sd, Some ed, [])))
             else month
         | _ \<Rightarrow> month)"

text \<open>The sum of \<^verbatim>\<open>total_amount\<close> over the checked-out bookings that leave within the period.\<close>

definition period_revenue :: "store \<Rightarrow> date \<Rightarrow> date \<Rightarrow> money" where
  "period_revenue s sd ed =
     sum_list (map total_amount
       (filter (\<lambda>b. status b = Checkout \<and> check_out b \<ge> sd \<and> check_out b < ed) (bookings s)))"

definition overlapping_bookings :: "store \<Rightarrow> date \<Rightarrow> date \<Rightarrow> booking list" where
  "overlapping_bookings s sd ed =
     filter (\<lambda>b. (status b = Checkin \<or> status b = Checkout) \<and> check_in b < ed \<and> check_out b > sd)
       (bookings s)"

text \<open>The loop that adds \<^verbatim>\<open>(overlap_end - overlap_start).days\<close> for each booking found.\<close>

definition occupied_nights :: "booking list \<Rightarrow> date \<Rightarrow> date \<Rightarrow> int" where
  "occupied_nights bs sd ed =
     fold (\<lambda>b acc. acc + (min (check_out b) ed - max (check_in b) sd)) bs 0"

text \<open>Python's \<^verbatim>\<open>/\<close> on two integers.\<close>

definition py_div :: "int \<Rightarrow> int \<Rightarrow> error + real" where
  "py_div a b = (if b = 0 then Inl ZeroDivisionError else Inr (real_of_int a / real_of_int b))"

definition reports ::
  "(string \<Rightarrow> date option) \<Rightarrow> (date \<Rightarrow> date) \<Rightarrow> date \<Rightarrow> string option \<Rightarrow> string option
     \<Rightarrow> store \<Rightarrow> error + report" where
  "reports strptime replace_day1 today start_str end_str s =
     (case report_period strptime replace_day1 today start_str end_str of
        (Some sd, Some ed, fl) \<Rightarrow>
          (let revenue = period_revenue s sd ed;
               period_days = ed - sd;
               total_rooms = int (length (rooms s));
               total_room_nights_available = period_days * total_rooms
           in if total_room_nights_available > 0 then
                (case (if total_room_nights_available > 0
                       then map_sum id (\<lambda>q. q * 100)
                              (py_div (occupied_nights (overlapping_bookings s sd ed) sd ed)
                                 total_room_nights_available)
                       else Inr 0) of
                   Inl e \<Rightarrow> Inl e
                 | Inr r \<Rightarrow>
                     Inr \<lparr>start_date = Some sd, end_date = Some ed, total_revenue = revenue,
                          occupation_rate = r, flashed = fl\<rparr>)
              else Inr \<lparr>start_date = Some sd, end_date = Some ed, total_revenue = revenue,
                        occupation_rate = 0, flashed = fl\<rparr>)
      | (a, b, fl) \<Rightarrow>
          Inr \<lparr>start_date = a, end_date = b, total_revenue = 0, occupation_rate = 0,
               flashed = fl\<rparr>)"

text \<open>
  The template of \<^verbatim>\<open>reports\<close> prints \<^verbatim>\<open>start.strftime('%Y-%m-%d')\<close> and
  \<^verbatim>\<open>end.strftime('%Y-%m-%d')\<close>: with \<^verbatim>\<open>None\<close> for either, rendering raises.
\<close>

definition render_reports :: "report \<Rightarrow> error + report" where
  "render_reports r =
     (case start_date r of
        None \<Rightarrow> Inl UndefinedError
      | Some _ \<Rightarrow> (case end_date r of None \<Rightarrow> Inl UndefinedError | Some _ \<Rightarrow> Inr r))"

text \<open>
  The whole view: \<open>reports\<close> above is its body down to the computed figures, and the
  response is what \<^verbatim>\<open>render_template_string\<close> makes of them.
\<close>

definition reports_response ::
  "(string \<Rightarrow> date option) \<Rightarrow> (date \<Rightarrow> date) \<Rightarrow> date \<Rightarrow> string option \<Rightarrow> string option
     \<Rightarrow> store \<Rightarrow> error + report" where
  "reports_response strptime replace_day1 today start_str end_str s =
     (case reports strptime replace_day1 today start_str end_str s of
        Inl e \<Rightarrow> Inl e
      | Inr r \<Rightarrow> render_reports r)"

subsection \<open>The no-overlap invariant and the reachable stores\<close>

text \<open>
  Two bookings clash when they are for the same room, both active, and their half-open
  stays meet: \<^verbatim>\<open>A.check_in < B.check_out AND B.check_in < A.check_out\<close>.
\<close>

definition clash :: "booking \<Rightarrow> booking \<Rightarrow> bool" where
  "clash a b \<longleftrightarrow>
     room_id a = room_id b \<and> active a \<and> active b
     \<and> check_in a < check_out b \<and> check_in b < check_out a"

fun no_overlap :: "booking list \<Rightarrow> bool" where
  "no_overlap [] = True"
| "no_overlap (b # bs) = (list_all (\<lambda>c. \<not> clash b c) bs \<and> no_overlap bs)"

text \<open>The primary key is unique and no two bookings clash.\<close>

definition wf_bookings :: "booking list \<Rightarrow> bool" where
  "wf_bookings bs \<longleftrightarrow> distinct (map b_id bs) \<and> no_overlap bs"

text \<open>An active booking holds room \<open>r\<close> on date \<open>d\<close>: \<open>check_in \<le> d < check_out\<close>.\<close>

definition occupies :: "int \<Rightarrow> date \<Rightarrow> booking \<Rightarrow> bool" where
  "occupies r d b \<longleftrightarrow> room_id b = r \<and> active b \<and> check_in b \<le> d \<and> d < check_out b"

text \<open>
  The stores the application can be in from a fresh database: it starts without
  bookings, and each request to one of the five mutating booking views takes it to the
  store that view returns. The guest views write the \<^verbatim>\<open>guests\<close> table only.
\<close>

inductive reachable :: "store \<Rightarrow> bool" where
  initial: "bookings s = [] \<Longrightarrow> reachable s"
| create: "reachable s \<Longrightarrow> reachable (snd (new_booking now r g ci co n s))"
| edit: "reachable s \<Longrightarrow> reachable (snd (booking_edit k r g ci co n s))"
| checkin: "reachable s \<Longrightarrow> reachable (snd (booking_checkin k s))"
| checkout: "reachable s \<Longrightarrow> reachable (snd (booking_checkout today k s))"
| cancel: "reachable s \<Longrightarrow> reachable (snd (booking_cancel k s))"
| guests_written: "reachable s \<Longrightarrow> reachable (s\<lparr>guests := gs\<rparr>)"

subsection \<open>The rule the specification gives for the reported conflict\<close>

text \<open>
  The specification's wording, not the code's: of the conflicting bookings, the first
  by descending check-in date.
\<close>

definition spec_first_by_check_in_desc :: "booking list \<Rightarrow> booking option" where
  "spec_first_by_check_in_desc cs = first (sort_key (\<lambda>b. - check_in b) cs)"

subsection \<open>Scenario data\<close>

text \<open>
  Room 101 at 110.00 a night, two guests, and the dates of March 2024 as ordinals:
  2024-03-01 is 738946, 2024-03-10 is 738955, 2024-03-12 is 738957 and 2024-04-01 is
  738977.
\<close>

definition hotel :: store where
  "hotel =
     \<lparr>rooms = [\<lparr>r_id = 1, number = ''101'', room_type = ''Single'', rate = 11000\<rparr>],
      guests = [\<lparr>g_id = 1, name = ''Ana'', document = None, phone = None, email = None\<rparr>,
                \<lparr>g_id = 2, name = ''Bruno'', document = None, phone = None, email = None\<rparr>],
      bookings = []\<rparr>"

definition stay :: "int \<Rightarrow> int \<Rightarrow> date \<Rightarrow> date \<Rightarrow> status \<Rightarrow> booking" where
  "stay i g ci co st =
     \<lparr>b_id = i, room_id = 1, guest_id = g, check_in = ci, check_out = co, status = st,
      b_notes = None, total_amount = 11000 * max (co - ci) 1, created_at = 0\<rparr>"

text \<open>A parser and a month start that are right on the dates the scenarios use.\<close>

definition scenario_strptime :: "string \<Rightarrow> date option" where
  "scenario_strptime t =
     (if t = ''2024-03-05'' then Some 738950
      else if t = ''2024-03-10'' then Some 738955
      else if t = ''2024-03-12'' then Some 738957
      else None)"

definition scenario_replace_day1 :: "date \<Rightarrow> date" where
  "scenario_replace_day1 d = (if d < 738977 then 738946 else 738977)"

section \<open>Properties\<close>

subsection \<open>Lookups and updates\<close>

lemma first_filter_Some_id:
  "first (filter (\<lambda>b. b_id b = k) bs) = Some b \<Longrightarrow> b_id b = k \<and> b \<in> set bs"
  by (induction bs) (auto simp: first_def split: if_splits)

lemma find_booking_Some: "find_booking s k = Some b \<Longrightarrow> b_id b = k \<and> b \<in> set (bookings s)"
  unfolding find_booking_def by (rule first_filter_Some_id)

lemma find_booking_update:
  assumes "find_booking s k = Some b" "b_id b' = k"
  shows "find_booking (s\<lparr>bookings := update_booking b' (bookings s)\<rparr>) k = Some b'"
proof -
  have "first (filter (\<lambda>x. b_id x = k) bs) = Some b \<Longrightarrow>
        first (filter (\<lambda>x. b_id x = k) (map (\<lambda>x. if b_id x = k then b' else x) bs)) = Some b'" for bs
    using assms(2) by (induction bs) (auto simp: first_def split: if_splits)
  then show ?thesis
    using assms by (simp add: find_booking_def update_booking_def)
qed

lemma update_booking_frame:
  "length (update_booking b' bs) = length bs
   \<and> (\<forall>i < length bs. b_id (bs ! i) \<noteq> b_id b' \<longrightarrow> update_booking b' bs ! i = bs ! i)"
  by (simp add: update_booking_def)

lemma compute_amount_Some: "compute_amount (Some r) b = Inr (rate r * nights b)"
  by (simp add: compute_amount_def)

lemma compute_amount_None: "compute_amount None b = Inl AttributeError"
  by (simp add: compute_amount_def)

lemma first_filter_None: "first (filter P xs) = None \<longleftrightarrow> (\<forall>x \<in> set xs. \<not> P x)"
  by (induction xs) (auto simp: first_def)

lemma first_filter_split:
  "xs = pre @ c # post \<Longrightarrow> \<forall>x \<in> set pre. \<not> P x \<Longrightarrow> P c \<Longrightarrow> first (filter P xs) = Some c"
  by (simp add: first_def)

lemma first_filter_Some_mem: "first (filter P xs) = Some c \<Longrightarrow> c \<in> set xs \<and> P c"
  by (induction xs) (auto simp: first_def split: if_splits)

subsection \<open>Check-in\<close>

text \<open>
  C6. The check-in transition succeeds exactly from status \<open>Reservado\<close>, where it moves
  the booking to \<open>Checkin\<close>; from every other status, an already checked-in booking
  included, it ends with \<open>InvalidTransition\<close> and the store is the one it started from.
\<close>

theorem booking_checkin_guard:
  assumes "find_booking s k = Some b"
  shows "(status b \<noteq> Reservado \<longrightarrow> booking_checkin k s = (Inl InvalidTransition, s))
       \<and> (status b = Reservado \<longrightarrow>
            booking_checkin k s
              = (Inr k, s\<lparr>bookings := update_booking (b\<lparr>status := Checkin\<rparr>) (bookings s)\<rparr>))"
  using assms find_booking_Some[of s k b]
  by (simp add: booking_checkin_def)

theorem booking_checkin_guard_witness:
  "find_booking (hotel\<lparr>bookings := [stay 1 1 738955 738957 Checkin]\<rparr>) 1
     = Some (stay 1 1 738955 738957 Checkin)
   \<and> booking_checkin 1 (hotel\<lparr>bookings := [stay 1 1 738955 738957 Checkin]\<rparr>)
     = (Inl InvalidTransition, hotel\<lparr>bookings := [stay 1 1 738955 738957 Checkin]\<rparr>)"
proof -
  have h: "find_booking (hotel\<lparr>bookings := [stay 1 1 738955 738957 Checkin]\<rparr>) 1
             = Some (stay 1 1 738955 738957 Checkin)"
    by (simp add: find_booking_def first_def stay_def)
  show ?thesis
    using h booking_checkin_guard[OF h] by (simp add: stay_def)
qed

subsection \<open>Creating a booking\<close>

lemma new_booking_date_range:
  "co \<le> ci \<Longrightarrow> new_booking now rid gid ci co n s = (Inl InvalidDateRange, s)"
  by (simp add: new_booking_def)

lemma new_booking_no_conflict:
  assumes "ci < co" and "\<forall>b \<in> set (bookings s). \<not> overlaps rid ci co b"
  shows "new_booking now rid gid ci co n s = (Inl AttributeError, s)"
proof -
  have "first (new_booking_conflicts s rid ci co) = None"
    using assms(2) unfolding new_booking_conflicts_def first_filter_None .
  then show ?thesis
    using assms(1) by (simp add: new_booking_def compute_amount_None)
qed

lemma new_booking_store: "snd (new_booking now rid gid ci co n s) = s"
  by (simp add: new_booking_def compute_amount_None split: option.splits)

text \<open>
  C1, at Scenario A. Room 101 is on file at 110.00 and has no bookings. The request
  from 2024-03-12 to 2024-03-10 ends with \<open>InvalidDateRange\<close>, as the claim says. The
  request from 2024-03-10 to 2024-03-12 passes both checks and then ends with
  \<open>AttributeError\<close>: no booking is stored, where the claim has one stored in status
  \<open>Reservado\<close> with amount 220.00.
\<close>

theorem new_booking_scenario_A:
  "find_room hotel 1
     = Some \<lparr>r_id = 1, number = ''101'', room_type = ''Single'', rate = 11000\<rparr>
   \<and> new_booking_conflicts hotel 1 738955 738957 = []
   \<and> new_booking 0 1 1 738957 738955 None hotel = (Inl InvalidDateRange, hotel)
   \<and> new_booking 0 1 1 738955 738957 None hotel = (Inl AttributeError, hotel)"
  by (simp add: new_booking_def new_booking_conflicts_def first_def compute_amount_def
      find_room_def hotel_def)

subsection \<open>Check-out\<close>

lemma booking_checkout_success:
  assumes "find_booking s k = Some b" "status b = Checkin" "find_room s (room_id b) = Some r"
  shows "booking_checkout today k s
           = (Inr k,
              s\<lparr>bookings := update_booking
                   (b\<lparr>check_out := today, total_amount := rate r * max (today - check_in b) 1,
                      status := Checkout\<rparr>) (bookings s)\<rparr>)"
  using assms find_booking_Some[OF assms(1)]
  by (simp add: booking_checkout_def compute_amount_Some nights_def)

text \<open>
  C5. From status \<open>Checkin\<close> (and with the booking's room on file) check-out succeeds:
  afterwards the booking has \<open>check_out = today\<close>, the amount
  \<open>rate r * max (today - check_in) 1\<close> and status \<open>Checkout\<close>. From every other status
  it ends with \<open>InvalidTransition\<close> and the store is unchanged.
\<close>

theorem booking_checkout_transition:
  assumes "find_booking s k = Some b"
  shows "(status b = Checkin \<and> find_room s (room_id b) = Some r \<longrightarrow>
            fst (booking_checkout today k s) = Inr k
            \<and> find_booking (snd (booking_checkout today k s)) k
                = Some (b\<lparr>check_out := today,
                          total_amount := rate r * max (today - check_in b) 1,
                          status := Checkout\<rparr>))
       \<and> (status b \<noteq> Checkin \<longrightarrow> booking_checkout today k s = (Inl InvalidTransition, s))"
proof -
  have "booking_checkout today k s = (Inl InvalidTransition, s)" if "status b \<noteq> Checkin"
    using assms that by (simp add: booking_checkout_def)
  moreover have "find_booking (snd (booking_checkout today k s)) k
                = Some (b\<lparr>check_out := today,
                          total_amount := rate r * max (today - check_in b) 1,
                          status := Checkout\<rparr>)
           \<and> fst (booking_checkout today k s) = Inr k"
    if "status b = Checkin" "find_room s (room_id b) = Some r"
    using booking_checkout_success[OF assms that] find_booking_Some[OF assms]
      find_booking_update[OF assms, of "b\<lparr>check_out := today,
                          total_amount := rate r * max (today - check_in b) 1,
                          status := Checkout\<rparr>"]
    by simp
  ultimately show ?thesis by blast
qed

theorem booking_checkout_transition_witness:
  "find_booking (hotel\<lparr>bookings := [stay 1 1 738955 738957 Checkin]\<rparr>) 1
     = Some (stay 1 1 738955 738957 Checkin)
   \<and> fst (booking_checkout 738958 1 (hotel\<lparr>bookings := [stay 1 1 738955 738957 Checkin]\<rparr>))
       = Inr 1
   \<and> find_booking
         (snd (booking_checkout 738958 1 (hotel\<lparr>bookings := [stay 1 1 738955 738957 Checkin]\<rparr>))) 1
       = Some (stay 1 1 738955 738958 Checkout)
   \<and> total_amount (stay 1 1 738955 738958 Checkout) = 33000
   \<and> booking_checkout 738958 1 (hotel\<lparr>bookings := [stay 1 1 738955 738957 Reservado]\<rparr>)
       = (Inl InvalidTransition, hotel\<lparr>bookings := [stay 1 1 738955 738957 Reservado]\<rparr>)"
proof -
  have h: "find_booking (hotel\<lparr>bookings := [stay 1 1 738955 738957 Checkin]\<rparr>) 1
     = Some (stay 1 1 738955 738957 Checkin)"
    by (simp add: find_booking_def first_def stay_def)
  have h2: "find_booking (hotel\<lparr>bookings := [stay 1 1 738955 738957 Reservado]\<rparr>) 1
     = Some (stay 1 1 738955 738957 Reservado)"
    by (simp add: find_booking_def first_def stay_def)
  have r: "find_room (hotel\<lparr>bookings := [stay 1 1 738955 738957 Checkin]\<rparr>) 1
     = Some \<lparr>r_id = 1, number = ''101'', room_type = ''Single'', rate = 11000\<rparr>"
    by (simp add: find_room_def first_def hotel_def)
  show ?thesis
    using h r
      booking_checkout_transition[OF h, where today = 738958
        and r = "\<lparr>r_id = 1, number = ''101'', room_type = ''Single'', rate = 11000\<rparr>"]
      booking_checkout_transition[OF h2, where today = 738958]
    by (simp add: stay_def)
qed

text \<open>
  C9. When check-out happens on a date on or before the booking's check-in date, the
  stored \<open>check_out\<close> is that date, so \<open>check_out \<le> check_in\<close> afterwards, and the
  recomputed amount is \<open>rate r * 1\<close>: \<open>nights\<close> never goes below 1.
\<close>

theorem booking_checkout_before_check_in:
  assumes "find_booking s k = Some b" and "status b = Checkin"
    and "find_room s (room_id b) = Some r" and "today \<le> check_in b"
  shows "\<exists>b'. find_booking (snd (booking_checkout today k s)) k = Some b'
           \<and> check_out b' = today \<and> check_out b' \<le> check_in b'
           \<and> total_amount b' = rate r * 1 \<and> status b' = Checkout"
proof -
  let ?b' = "b\<lparr>check_out := today, total_amount := rate r * max (today - check_in b) 1,
                status := Checkout\<rparr>"
  have "find_booking (snd (booking_checkout today k s)) k = Some ?b'"
    using booking_checkout_success[OF assms(1-3)] find_booking_Some[OF assms(1)]
      find_booking_update[OF assms(1), of ?b']
    by simp
  moreover have "max (today - check_in b) 1 = 1"
    using assms(4) by simp
  ultimately show ?thesis
    using assms(4) by simp
qed

theorem booking_checkout_before_check_in_witness:
  "(\<exists>b'. find_booking
            (snd (booking_checkout 738955 1 (hotel\<lparr>bookings := [stay 1 1 738956 738958 Checkin]\<rparr>))) 1
          = Some b'
        \<and> check_out b' = 738955 \<and> check_out b' \<le> check_in b'
        \<and> total_amount b' = 11000 \<and> status b' = Checkout)
   \<and> booking_checkout 738955 1 (hotel\<lparr>bookings := [stay 1 1 738956 738958 Checkin]\<rparr>)
       = (Inr 1, hotel\<lparr>bookings := [stay 1 1 738956 738955 Checkout]\<rparr>)"
proof -
  let ?s = "hotel\<lparr>bookings := [stay 1 1 738956 738958 Checkin]\<rparr>"
  have h: "find_booking ?s 1 = Some (stay 1 1 738956 738958 Checkin)"
    by (simp add: find_booking_def first_def stay_def)
  have st: "status (stay 1 1 738956 738958 Checkin) = Checkin"
    by (simp add: stay_def)
  have r: "find_room ?s (room_id (stay 1 1 738956 738958 Checkin))
     = Some \<lparr>r_id = 1, number = ''101'', room_type = ''Single'', rate = 11000\<rparr>"
    by (simp add: find_room_def first_def hotel_def stay_def)
  have d: "738955 \<le> check_in (stay 1 1 738956 738958 Checkin)"
    by (simp add: stay_def)
  have c: "booking_checkout 738955 1 ?s
       = (Inr 1, hotel\<lparr>bookings := [stay 1 1 738956 738955 Checkout]\<rparr>)"
    by (simp add: booking_checkout_def find_booking_def first_def stay_def hotel_def
        compute_amount_def find_room_def nights_def update_booking_def)
  have e: "\<exists>b'. find_booking (snd (booking_checkout 738955 1 ?s)) 1 = Some b'
        \<and> check_out b' = 738955 \<and> check_out b' \<le> check_in b'
        \<and> total_amount b' = 11000 \<and> status b' = Checkout"
    using booking_checkout_before_check_in[OF h st r d] by simp
  from e c show ?thesis by (rule conjI)
qed

subsection \<open>What check-in and cancel leave alone\<close>

text \<open>
  C10. A successful check-in (from \<open>Reservado\<close>) and a successful cancel (from
  \<open>Reservado\<close> or \<open>Checkin\<close>) replace the booking by itself with only \<open>status\<close> changed:
  room, guest, dates, notes, amount and creation time stay. The \<open>rooms\<close> and \<open>guests\<close>
  tables are the same, the \<open>bookings\<close> table keeps its length, and every row with another
  id is the row it was.
\<close>

theorem checkin_cancel_frame:
  assumes "find_booking s k = Some b"
  shows "(status b = Reservado \<longrightarrow>
            fst (booking_checkin k s) = Inr k
            \<and> rooms (snd (booking_checkin k s)) = rooms s
            \<and> guests (snd (booking_checkin k s)) = guests s
            \<and> find_booking (snd (booking_checkin k s)) k = Some (b\<lparr>status := Checkin\<rparr>)
            \<and> length (bookings (snd (booking_checkin k s))) = length (bookings s)
            \<and> (\<forall>i < length (bookings s). b_id (bookings s ! i) \<noteq> k \<longrightarrow>
                  bookings (snd (booking_checkin k s)) ! i = bookings s ! i))
       \<and> (status b = Reservado \<or> status b = Checkin \<longrightarrow>
            fst (booking_cancel k s) = Inr k
            \<and> rooms (snd (booking_cancel k s)) = rooms s
            \<and> guests (snd (booking_cancel k s)) = guests s
            \<and> find_booking (snd (booking_cancel k s)) k = Some (b\<lparr>status := Cancelado\<rparr>)
            \<and> length (bookings (snd (booking_cancel k s))) = length (bookings s)
            \<and> (\<forall>i < length (bookings s). b_id (bookings s ! i) \<noteq> k \<longrightarrow>
                  bookings (snd (booking_cancel k s)) ! i = bookings s ! i))"
proof -
  note k = find_booking_Some[OF assms]
  have ci: "booking_checkin k s
      = (Inr k, s\<lparr>bookings := update_booking (b\<lparr>status := Checkin\<rparr>) (bookings s)\<rparr>)"
    if "status b = Reservado"
    using assms that k by (simp add: booking_checkin_def)
  have ca: "booking_cancel k s
      = (Inr k, s\<lparr>bookings := update_booking (b\<lparr>status := Cancelado\<rparr>) (bookings s)\<rparr>)"
    if "status b = Reservado \<or> status b = Checkin"
    using assms that k by (auto simp: booking_cancel_def)
  show ?thesis
    using k find_booking_update[OF assms, of "b\<lparr>status := Checkin\<rparr>"]
      find_booking_update[OF assms, of "b\<lparr>status := Cancelado\<rparr>"]
      update_booking_frame[of "b\<lparr>status := Checkin\<rparr>" "bookings s"]
      update_booking_frame[of "b\<lparr>status := Cancelado\<rparr>" "bookings s"]
    by (auto simp: ci ca)
qed

theorem checkin_cancel_frame_witness:
  "snd (booking_checkin 1
     (hotel\<lparr>bookings := [stay 1 1 738955 738957 Reservado, stay 2 2 738957 738959 Reservado]\<rparr>))
     = hotel\<lparr>bookings := [stay 1 1 738955 738957 Checkin, stay 2 2 738957 738959 Reservado]\<rparr>
   \<and> snd (booking_cancel 1
     (hotel\<lparr>bookings := [stay 1 1 738955 738957 Reservado, stay 2 2 738957 738959 Reservado]\<rparr>))
     = hotel\<lparr>bookings := [stay 1 1 738955 738957 Cancelado, stay 2 2 738957 738959 Reservado]\<rparr>
   \<and> bookings (snd (booking_checkin 1
     (hotel\<lparr>bookings := [stay 1 1 738955 738957 Reservado, stay 2 2 738957 738959 Reservado]\<rparr>))) ! 1
     = stay 2 2 738957 738959 Reservado"
proof -
  let ?s = "hotel\<lparr>bookings := [stay 1 1 738955 738957 Reservado, stay 2 2 738957 738959 Reservado]\<rparr>"
  have h: "find_booking ?s 1 = Some (stay 1 1 738955 738957 Reservado)"
    by (simp add: find_booking_def first_def stay_def)
  have c: "snd (booking_checkin 1 ?s)
     = hotel\<lparr>bookings := [stay 1 1 738955 738957 Checkin, stay 2 2 738957 738959 Reservado]\<rparr>"
    by (simp add: booking_checkin_def find_booking_def first_def stay_def update_booking_def)
  have d: "snd (booking_cancel 1 ?s)
     = hotel\<lparr>bookings := [stay 1 1 738955 738957 Cancelado, stay 2 2 738957 738959 Reservado]\<rparr>"
    by (simp add: booking_cancel_def find_booking_def first_def stay_def update_booking_def)
  have "bookings (snd (booking_checkin 1 ?s)) ! 1 = bookings ?s ! 1"
    using checkin_cancel_frame[OF h] by (simp add: stay_def)
  then show ?thesis
    using c d by simp
qed

subsection \<open>Conflicts on creation\<close>

lemma new_booking_overlap:
  assumes "ci < co" and "e \<in> set (bookings s)" and "overlaps rid ci co e"
    and "\<forall>c \<in> set (bookings s). find_guest s (guest_id c) \<noteq> None"
  shows "\<exists>g. new_booking now rid gid ci co n s = (Inl (RoomUnavailable g), s)"
proof -
  have "first (new_booking_conflicts s rid ci co) \<noteq> None"
    using assms(2,3) by (auto simp: new_booking_conflicts_def first_filter_None)
  then obtain c where c: "first (new_booking_conflicts s rid ci co) = Some c"
    by auto
  then have "c \<in> set (bookings s)"
    unfolding new_booking_conflicts_def by (auto dest: first_filter_Some_mem)
  with assms(4) obtain g where "find_guest s (guest_id c) = Some g"
    by auto
  with assms(1) c show ?thesis
    by (simp add: new_booking_def conflict_flash_def)
qed

lemma touching_is_no_conflict:
  "ci = check_out e \<or> co = check_in e \<Longrightarrow> \<not> overlaps rid ci co e"
  by (auto simp: overlaps_def)

text \<open>
  C7, with Ana's reserved stay in room 101 from 2024-03-10 to 2024-03-12 on file. The
  request from 03-11 to 03-13 overlaps it and ends with \<open>RoomUnavailable\<close> naming Ana,
  as the claim says. The requests from 03-12 to 03-14 and from 03-08 to 03-10 only
  touch it: the conflict query finds nothing, and the request then ends with
  \<open>AttributeError\<close> and stores nothing, where the claim has it succeed.
\<close>

theorem new_booking_boundary_scenario:
  "new_booking 0 1 2 738956 738958 None (hotel\<lparr>bookings := [stay 1 1 738955 738957 Reservado]\<rparr>)
     = (Inl (RoomUnavailable ''Ana''), hotel\<lparr>bookings := [stay 1 1 738955 738957 Reservado]\<rparr>)
   \<and> new_booking_conflicts (hotel\<lparr>bookings := [stay 1 1 738955 738957 Reservado]\<rparr>)
        1 738957 738959 = []
   \<and> new_booking 0 1 2 738957 738959 None (hotel\<lparr>bookings := [stay 1 1 738955 738957 Reservado]\<rparr>)
     = (Inl AttributeError, hotel\<lparr>bookings := [stay 1 1 738955 738957 Reservado]\<rparr>)
   \<and> new_booking_conflicts (hotel\<lparr>bookings := [stay 1 1 738955 738957 Reservado]\<rparr>)
        1 738953 738955 = []
   \<and> new_booking 0 1 2 738953 738955 None (hotel\<lparr>bookings := [stay 1 1 738955 738957 Reservado]\<rparr>)
     = (Inl AttributeError, hotel\<lparr>bookings := [stay 1 1 738955 738957 Reservado]\<rparr>)"
  by (simp add: new_booking_def new_booking_conflicts_def overlaps_def active_def first_def
      conflict_flash_def find_guest_def compute_amount_def hotel_def stay_def)

text \<open>
  C4, as the code has it. The conflict that \<^verbatim>\<open>new_booking\<close> reports is the first
  conflicting row in row order: the query has no \<^verbatim>\<open>order_by\<close>. With
  \<open>check_in < check_out\<close>, a row \<open>c\<close> that conflicts, no conflicting row before it and
  its guest \<open>g\<close> on file, the request ends with \<open>RoomUnavailable (name g)\<close> and the store
  is unchanged.
\<close>

theorem new_booking_names_first_conflict:
  assumes "ci < co"
    and "bookings s = pre @ c # post"
    and "\<forall>x \<in> set pre. \<not> (room_id x = rid \<and> (status x = Reservado \<or> status x = Checkin)
                               \<and> check_in x < co \<and> ci < check_out x)"
    and "room_id c = rid \<and> (status c = Reservado \<or> status c = Checkin)
         \<and> check_in c < co \<and> ci < check_out c"
    and "find_guest s (guest_id c) = Some g"
  shows "new_booking now rid gid ci co n s = (Inl (RoomUnavailable (name g)), s)"
proof -
  have "first (new_booking_conflicts s rid ci co) = Some c"
    unfolding new_booking_conflicts_def
    using assms(2-4) by (intro first_filter_split[of _ pre c post]) (auto simp: overlaps_def active_def)
  then show ?thesis
    using assms(1,5) by (simp add: new_booking_def conflict_flash_def)
qed

theorem new_booking_names_first_conflict_witness:
  "new_booking 0 1 1 738956 738958 None
     (hotel\<lparr>bookings := [stay 1 1 738955 738957 Reservado, stay 2 2 738957 738959 Reservado]\<rparr>)
   = (Inl (RoomUnavailable ''Ana''),
      hotel\<lparr>bookings := [stay 1 1 738955 738957 Reservado, stay 2 2 738957 738959 Reservado]\<rparr>)"
proof -
  let ?s = "hotel\<lparr>bookings := [stay 1 1 738955 738957 Reservado, stay 2 2 738957 738959 Reservado]\<rparr>"
  have g: "find_guest ?s (guest_id (stay 1 1 738955 738957 Reservado))
           = Some \<lparr>g_id = 1, name = ''Ana'', document = None, phone = None, email = None\<rparr>"
    by (simp add: find_guest_def first_def hotel_def stay_def)
  have b: "bookings ?s = [] @ stay 1 1 738955 738957 Reservado # [stay 2 2 738957 738959 Reservado]"
    by simp
  have c: "room_id (stay 1 1 738955 738957 Reservado) = 1
      \<and> (status (stay 1 1 738955 738957 Reservado) = Reservado
           \<or> status (stay 1 1 738955 738957 Reservado) = Checkin)
      \<and> check_in (stay 1 1 738955 738957 Reservado) < 738958
      \<and> 738956 < check_out (stay 1 1 738955 738957 Reservado)"
    by (simp add: stay_def)
  show ?thesis
    using new_booking_names_first_conflict[where ci = 738956 and co = 738958 and s = ?s
        and pre = "[]" and c = "stay 1 1 738955 738957 Reservado"
        and post = "[stay 2 2 738957 738959 Reservado]" and rid = 1 and now = 0 and gid = 1
        and n = None, OF _ b _ c g]
    by simp
qed

text \<open>
  C4, as stated, fails. Two stays of room 101, Ana's from 2024-03-10 to 03-12 (row 1)
  and Bruno's from 03-12 to 03-14 (row 2), both conflict with a request for 03-11 to
  03-13. By descending check-in the conflict to report is Bruno's; the code names Ana.
\<close>

theorem conflict_order_counterexample:
  "fst (new_booking 0 1 1 738956 738958 None
     (hotel\<lparr>bookings := [stay 1 1 738955 738957 Reservado, stay 2 2 738957 738959 Reservado]\<rparr>))
     = Inl (RoomUnavailable ''Ana'')
   \<and> map_option
        (conflict_flash
          (hotel\<lparr>bookings := [stay 1 1 738955 738957 Reservado, stay 2 2 738957 738959 Reservado]\<rparr>))
        (spec_first_by_check_in_desc
          (new_booking_conflicts
            (hotel\<lparr>bookings := [stay 1 1 738955 738957 Reservado, stay 2 2 738957 738959 Reservado]\<rparr>)
            1 738956 738958))
     = Some (RoomUnavailable ''Bruno'')"
  by (simp add: new_booking_def new_booking_conflicts_def overlaps_def active_def first_def
      conflict_flash_def find_guest_def hotel_def stay_def spec_first_by_check_in_desc_def)

subsection \<open>The period report\<close>

lemma report_period_cases:
  "report_period strptime replace_day today start_str end_str = (a, b, fl) \<Longrightarrow>
     (a = None \<and> b = None) \<or> (\<exists>sd ed. a = Some sd \<and> b = Some ed)"
  by (auto simp: report_period_def Let_def split: option.splits if_splits)

lemma reports_None:
  "report_period strptime replace_day today start_str end_str = (None, None, fl) \<Longrightarrow>
   reports strptime replace_day today start_str end_str s
     = Inr \<lparr>start_date = None, end_date = None, total_revenue = 0, occupation_rate = 0,
            flashed = fl\<rparr>"
  by (simp add: reports_def)

lemma reports_Some:
  "report_period strptime replace_day today start_str end_str = (Some sd, Some ed, fl) \<Longrightarrow>
   reports strptime replace_day today start_str end_str s
     = Inr \<lparr>start_date = Some sd, end_date = Some ed, total_revenue = period_revenue s sd ed,
            occupation_rate =
              (if (ed - sd) * int (length (rooms s)) > 0
               then real_of_int (occupied_nights (overlapping_bookings s sd ed) sd ed)
                    / real_of_int ((ed - sd) * int (length (rooms s))) * 100
               else 0),
            flashed = fl\<rparr>"
  by (simp add: reports_def Let_def py_div_def)

text \<open>
  C8. \<^verbatim>\<open>reports\<close> never ends with a division error, and with no rooms, or with a
  requested range whose end is on or before its start, the occupancy rate it computes
  is 0.
\<close>

theorem reports_rate_zero:
  "(\<exists>r. reports strptime replace_day today start_str end_str s = Inr r)
   \<and> (rooms s = []
        \<or> (start_str = Some a \<and> end_str = Some b \<and> a \<noteq> [] \<and> b \<noteq> []
            \<and> strptime a = Some sd \<and> strptime b = Some ed \<and> ed \<le> sd)
      \<longrightarrow> (\<exists>r. reports strptime replace_day today start_str end_str s = Inr r
                \<and> occupation_rate r = 0))"
proof -
  obtain x y fl where p: "report_period strptime replace_day today start_str end_str = (x, y, fl)"
    by (cases "report_period strptime replace_day today start_str end_str") auto
  from report_period_cases[OF p]
  consider "x = None" "y = None" | sd' ed' where "x = Some sd'" "y = Some ed'"
    by blast
  then show ?thesis
  proof cases
    case 1
    then show ?thesis
      using reports_None[of strptime replace_day today start_str end_str fl s] p by simp
  next
    case 2
    have z: "\<not> (start_str = Some a \<and> end_str = Some b \<and> a \<noteq> [] \<and> b \<noteq> []
            \<and> strptime a = Some sd \<and> strptime b = Some ed \<and> ed \<le> sd)"
      using p 2 by (auto simp: report_period_def Let_def)
    show ?thesis
      using reports_Some[of strptime replace_day today start_str end_str sd' ed' fl s] p 2 z
      by auto
  qed
qed

theorem reports_rate_zero_witness:
  "(\<exists>r. reports scenario_strptime scenario_replace_day1 738955 None None
           (hotel\<lparr>rooms := [], bookings := [stay 1 1 738955 738957 Checkout]\<rparr>) = Inr r
        \<and> occupation_rate r = 0)
   \<and> (\<exists>r. reports scenario_strptime scenario_replace_day1 738955
           (Some ''2024-03-10'') (Some ''2024-03-10'')
           (hotel\<lparr>bookings := [stay 1 1 738955 738957 Checkout]\<rparr>) = Inr r
        \<and> occupation_rate r = 0)
   \<and> reports scenario_strptime scenario_replace_day1 738955 None None
           (hotel\<lparr>rooms := [], bookings := [stay 1 1 738955 738957 Checkout]\<rparr>)
       = Inr \<lparr>start_date = Some 738946, end_date = Some 738977, total_revenue = 22000,
              occupation_rate = 0, flashed = []\<rparr>"
proof -
  let ?s0 = "hotel\<lparr>rooms := [], bookings := [stay 1 1 738955 738957 Checkout]\<rparr>"
  let ?s1 = "hotel\<lparr>bookings := [stay 1 1 738955 738957 Checkout]\<rparr>"
  have h0: "rooms ?s0 = []
      \<or> (None = Some a \<and> None = Some b \<and> a \<noteq> [] \<and> b \<noteq> []
            \<and> scenario_strptime a = Some sd \<and> scenario_strptime b = Some ed \<and> ed \<le> sd)"
    for a b and sd ed :: int
    by simp
  have h1: "rooms ?s1 = []
      \<or> (Some ''2024-03-10'' = Some ''2024-03-10'' \<and> Some ''2024-03-10'' = Some ''2024-03-10''
            \<and> ''2024-03-10'' \<noteq> [] \<and> ''2024-03-10'' \<noteq> []
            \<and> scenario_strptime ''2024-03-10'' = Some 738955
            \<and> scenario_strptime ''2024-03-10'' = Some 738955 \<and> (738955::int) \<le> 738955)"
    by (simp add: scenario_strptime_def)
  have a: "\<exists>r. reports scenario_strptime scenario_replace_day1 738955 None None ?s0 = Inr r
        \<and> occupation_rate r = 0"
    using reports_rate_zero[where s = ?s0 and start_str = None and end_str = None
        and strptime = scenario_strptime and replace_day = scenario_replace_day1
        and today = 738955, THEN conjunct2, THEN mp, OF h0] .
  have b: "\<exists>r. reports scenario_strptime scenario_replace_day1 738955
           (Some ''2024-03-10'') (Some ''2024-03-10'') ?s1 = Inr r
        \<and> occupation_rate r = 0"
    using reports_rate_zero[where s = ?s1 and start_str = "Some ''2024-03-10''"
        and end_str = "Some ''2024-03-10''" and a = "''2024-03-10''" and b = "''2024-03-10''"
        and sd = 738955 and ed = 738955
        and strptime = scenario_strptime and replace_day = scenario_replace_day1
        and today = 738955, THEN conjunct2, THEN mp, OF h1] .
  have c: "reports scenario_strptime scenario_replace_day1 738955 None None ?s0
       = Inr \<lparr>start_date = Some 738946, end_date = Some 738977, total_revenue = 22000,
              occupation_rate = 0, flashed = []\<rparr>"
    by (simp add: reports_def report_period_def scenario_replace_day1_def period_revenue_def
        stay_def Let_def)
  from a b c show ?thesis by blast
qed

lemma reports_invalid_period:
  assumes "start_str = Some a" and "end_str = Some b" and "a \<noteq> []" and "b \<noteq> []"
    and "strptime a = None \<or> strptime b = None
         \<or> (\<exists>sd ed. strptime a = Some sd \<and> strptime b = Some ed \<and> ed \<le> sd)"
  shows "reports strptime replace_day today start_str end_str s
           = Inr \<lparr>start_date = None, end_date = None, total_revenue = 0, occupation_rate = 0,
                  flashed = [ValidationError
                    (if strptime a = None \<or> strptime b = None then InvalidDates
                     else EndNotAfterStart)]\<rparr>"
proof -
  have "report_period strptime replace_day today start_str end_str
      = (None, None, [ValidationError
                    (if strptime a = None \<or> strptime b = None then InvalidDates
                     else EndNotAfterStart)])"
    using assms by (auto simp: report_period_def Let_def split: option.splits)
  then show ?thesis
    by (rule reports_None)
qed

lemma reports_response_invalid:
  assumes "start_str = Some a" and "end_str = Some b" and "a \<noteq> []" and "b \<noteq> []"
    and "strptime a = None \<or> strptime b = None
         \<or> (\<exists>sd ed. strptime a = Some sd \<and> strptime b = Some ed \<and> ed \<le> sd)"
  shows "reports_response strptime replace_day today start_str end_str s = Inl UndefinedError"
  using reports_invalid_period[OF assms, of replace_day today s]
  by (simp add: reports_response_def render_reports_def)

text \<open>
  C3, on 2024-03-10, with one checked-out stay of two nights worth 220.00 that left on
  2024-03-12. The request from 2024-03-10 to 2024-03-05 and the request with an
  unparsable end date both flash a validation message, leave the period \<^verbatim>\<open>None\<close> with
  zero figures, and end with \<open>UndefinedError\<close> when the template is rendered: no report
  is returned, where the claim has the report of the current month returned. That
  report, for 2024-03-01 to 2024-04-01 with revenue 220.00 and rate \<open>200 / 31\<close>, is
  what the request without dates gets.
\<close>

theorem reports_invalid_range_raises:
  "reports scenario_strptime scenario_replace_day1 738955 (Some ''2024-03-10'') (Some ''2024-03-05'')
     (hotel\<lparr>bookings := [stay 1 1 738955 738957 Checkout]\<rparr>)
     = Inr \<lparr>start_date = None, end_date = None, total_revenue = 0, occupation_rate = 0,
            flashed = [ValidationError EndNotAfterStart]\<rparr>
   \<and> reports_response scenario_strptime scenario_replace_day1 738955
       (Some ''2024-03-10'') (Some ''2024-03-05'')
       (hotel\<lparr>bookings := [stay 1 1 738955 738957 Checkout]\<rparr>)
     = Inl UndefinedError
   \<and> reports_response scenario_strptime scenario_replace_day1 738955
       (Some ''2024-03-10'') (Some ''10/03/2024'')
       (hotel\<lparr>bookings := [stay 1 1 738955 738957 Checkout]\<rparr>)
     = Inl UndefinedError
   \<and> reports_response scenario_strptime scenario_replace_day1 738955 None None
       (hotel\<lparr>bookings := [stay 1 1 738955 738957 Checkout]\<rparr>)
     = Inr \<lparr>start_date = Some 738946, end_date = Some 738977, total_revenue = 22000,
            occupation_rate = 200 / 31, flashed = []\<rparr>"
  by (simp add: reports_response_def render_reports_def reports_def report_period_def
      scenario_strptime_def scenario_replace_day1_def period_revenue_def
      overlapping_bookings_def occupied_nights_def py_div_def stay_def hotel_def Let_def)

subsection \<open>The no-overlap invariant\<close>

lemma clash_sym: "clash a b \<longleftrightarrow> clash b a"
  by (auto simp: clash_def)

lemma no_overlap_append1:
  "no_overlap (bs @ [b]) \<longleftrightarrow> no_overlap bs \<and> (\<forall>c \<in> set bs. \<not> clash c b)"
  by (induction bs) (auto simp: list_all_iff)

lemma no_overlap_map:
  assumes "distinct (map b_id bs)" and "no_overlap bs"
    and "\<forall>x \<in> set bs. \<forall>y \<in> set bs. b_id x \<noteq> b_id y \<longrightarrow> clash (f x) (f y) \<longrightarrow> clash x y"
  shows "no_overlap (map f bs)"
  using assms
proof (induction bs)
  case Nil
  then show ?case by simp
next
  case (Cons b bs)
  have "\<not> clash (f b) (f y)" if "y \<in> set bs" for y
  proof -
    have "b_id b \<noteq> b_id y"
      using Cons.prems(1) that by auto
    moreover have "\<not> clash b y"
      using Cons.prems(2) that by (simp add: list_all_iff)
    ultimately show ?thesis
      using Cons.prems(3) that by auto
  qed
  moreover have "no_overlap (map f bs)"
    using Cons by simp
  ultimately show ?case
    by (simp add: list_all_iff)
qed

lemma map_b_id_update: "map b_id (update_booking b' bs) = map b_id bs"
  by (induction bs) (auto simp: update_booking_def)

lemma no_overlap_update:
  assumes "distinct (map b_id bs)" and "no_overlap bs"
    and "\<forall>x \<in> set bs. \<forall>y \<in> set bs.
           b_id x = b_id b' \<longrightarrow> b_id y \<noteq> b_id b' \<longrightarrow> clash b' y \<longrightarrow> clash x y"
  shows "no_overlap (update_booking b' bs)"
  unfolding update_booking_def
proof (rule no_overlap_map[OF assms(1,2)], intro ballI impI)
  fix x y
  assume xy: "x \<in> set bs" "y \<in> set bs" "b_id x \<noteq> b_id y"
    and c: "clash (if b_id x = b_id b' then b' else x) (if b_id y = b_id b' then b' else y)"
  show "clash x y"
  proof (cases "b_id x = b_id b'")
    case True
    then show ?thesis using xy c assms(3) by auto
  next
    case False
    show ?thesis
    proof (cases "b_id y = b_id b'")
      case True
      then have "clash b' x" using c False by (simp add: clash_sym)
      then have "clash y x" using xy True False assms(3) by blast
      then show ?thesis by (simp add: clash_sym)
    next
      case False
      then show ?thesis using c \<open>b_id x \<noteq> b_id b'\<close> by simp
    qed
  qed
qed

lemma wf_update:
  assumes "wf_bookings bs"
    and "\<forall>x \<in> set bs. \<forall>y \<in> set bs.
           b_id x = b_id b' \<longrightarrow> b_id y \<noteq> b_id b' \<longrightarrow> clash b' y \<longrightarrow> clash x y"
  shows "wf_bookings (update_booking b' bs)"
  using assms no_overlap_update[of bs b'] by (simp add: wf_bookings_def map_b_id_update)

lemma b_id_less_next_id: "x \<in> set bs \<Longrightarrow> b_id x < next_id bs"
  by (induction bs) (auto simp: next_id_def)

lemma same_id_same_booking:
  "distinct (map b_id bs) \<Longrightarrow> x \<in> set bs \<Longrightarrow> y \<in> set bs \<Longrightarrow> b_id x = b_id y \<Longrightarrow> x = y"
  by (meson distinct_map inj_onD)

lemma wf_new_booking:
  assumes "wf_bookings (bookings s)"
  shows "wf_bookings (bookings (snd (new_booking now r g ci co n s)))"
  using assms by (simp add: new_booking_store)

lemma wf_booking_checkin:
  assumes "wf_bookings (bookings s)"
  shows "wf_bookings (bookings (snd (booking_checkin k s)))"
proof (cases "find_booking s k")
  case None
  then show ?thesis using assms by (simp add: booking_checkin_def)
next
  case (Some b)
  note kb = find_booking_Some[OF Some]
  show ?thesis
  proof (cases "status b = Reservado")
    case False
    then show ?thesis using assms Some by (simp add: booking_checkin_def)
  next
    case True
    have "wf_bookings (update_booking (b\<lparr>status := Checkin\<rparr>) (bookings s))"
    proof (rule wf_update[OF assms], intro ballI impI)
      fix x y
      assume "x \<in> set (bookings s)" "b_id x = b_id (b\<lparr>status := Checkin\<rparr>)"
        and c: "clash (b\<lparr>status := Checkin\<rparr>) y"
      then have "x = b"
        using same_id_same_booking[of "bookings s" x b] assms kb by (simp add: wf_bookings_def)
      then show "clash x y"
        using c True by (simp add: clash_def active_def)
    qed
    then show ?thesis using Some True by (simp add: booking_checkin_def)
  qed
qed

lemma wf_inactive_update:
  assumes "wf_bookings bs" and "\<not> active b'"
  shows "wf_bookings (update_booking b' bs)"
  using assms by (intro wf_update) (auto simp: clash_def)

lemma wf_booking_cancel:
  assumes "wf_bookings (bookings s)"
  shows "wf_bookings (bookings (snd (booking_cancel k s)))"
proof (cases "find_booking s k")
  case None
  then show ?thesis using assms by (simp add: booking_cancel_def)
next
  case (Some b)
  have "wf_bookings (update_booking (b\<lparr>status := Cancelado\<rparr>) (bookings s))"
    using assms by (rule wf_inactive_update) (simp add: active_def)
  then show ?thesis using assms Some by (simp add: booking_cancel_def)
qed

lemma wf_booking_checkout:
  assumes "wf_bookings (bookings s)"
  shows "wf_bookings (bookings (snd (booking_checkout today k s)))"
proof (cases "find_booking s k")
  case None
  then show ?thesis using assms by (simp add: booking_checkout_def)
next
  case (Some b)
  have "wf_bookings (update_booking
          (b\<lparr>check_out := today, total_amount := amount, status := Checkout\<rparr>) (bookings s))"
    for amount
    using assms by (rule wf_inactive_update) (simp add: active_def)
  then show ?thesis
    using assms Some by (simp add: booking_checkout_def Let_def split: sum.splits)
qed

lemma wf_booking_edit:
  assumes "wf_bookings (bookings s)"
  shows "wf_bookings (bookings (snd (booking_edit k r g ci co n s)))"
proof (cases "\<exists>i. fst (booking_edit k r g ci co n s) = Inr i")
  case False
  then have "snd (booking_edit k r g ci co n s) = s"
    by (auto simp: booking_edit_def Let_def split: if_splits option.splits sum.splits)
  then show ?thesis using assms by simp
next
  case True
  then obtain b amount where b: "find_booking s k = Some b"
    and none: "first (booking_edit_conflicts s k r ci co) = None"
    and s': "bookings (snd (booking_edit k r g ci co n s))
             = update_booking (b\<lparr>room_id := r, guest_id := g, check_in := ci, check_out := co,
                                 b_notes := n, total_amount := amount\<rparr>) (bookings s)"
    by (auto simp: booking_edit_def Let_def split: if_splits option.splits sum.splits)
  note kb = find_booking_Some[OF b]
  have free: "\<forall>c \<in> set (bookings s). \<not> (b_id c \<noteq> k \<and> overlaps r ci co c)"
    using none unfolding booking_edit_conflicts_def first_filter_None .
  show ?thesis
    unfolding s'
  proof (rule wf_update[OF assms], intro ballI impI)
    fix x y
    assume "y \<in> set (bookings s)"
      and "b_id y \<noteq> b_id (b\<lparr>room_id := r, guest_id := g, check_in := ci, check_out := co,
                                 b_notes := n, total_amount := amount\<rparr>)"
      and "clash (b\<lparr>room_id := r, guest_id := g, check_in := ci, check_out := co,
                                 b_notes := n, total_amount := amount\<rparr>) y"
    then have False
      using free kb by (auto simp: clash_def overlaps_def)
    then show "clash x y" ..
  qed
qed

lemma reachable_wf: "reachable s \<Longrightarrow> wf_bookings (bookings s)"
proof (induction rule: reachable.induct)
  case (initial s)
  then show ?case by (simp add: wf_bookings_def)
next
  case (guests_written s gs)
  then show ?case by simp
qed (simp_all add: wf_new_booking wf_booking_edit wf_booking_checkin wf_booking_checkout
      wf_booking_cancel)

lemma no_overlap_occupies:
  "no_overlap bs \<Longrightarrow> length (filter (occupies r d) bs) \<le> 1"
proof (induction bs)
  case Nil
  then show ?case by simp
next
  case (Cons b bs)
  show ?case
  proof (cases "occupies r d b")
    case False
    then show ?thesis using Cons by simp
  next
    case True
    have "\<not> occupies r d c" if "c \<in> set bs" for c
    proof
      assume "occupies r d c"
      with True have "clash b c"
        by (auto simp: occupies_def clash_def)
      then show False
        using Cons.prems that by (simp add: list_all_iff)
    qed
    then have "filter (occupies r d) bs = []"
      by (simp add: filter_empty_conv)
    then show ?thesis using True by simp
  qed
qed

text \<open>
  C2. Each of the five mutating views takes a store whose bookings have distinct ids and
  do not clash to a store of the same kind, whatever the request; in such a store, for
  every room \<open>r\<close> and date \<open>d\<close>, at most one booking in status \<open>Reservado\<close> or
  \<open>Checkin\<close> has \<open>check_in \<le> d < check_out\<close> in that room. So it is in every store
  reachable from a fresh database. The first part is about any bookings table that
  satisfies the invariant: the database file outlives the process, and from a fresh
  one \<^verbatim>\<open>new_booking\<close> adds no row.
\<close>

theorem no_overlap_preserved:
  "(wf_bookings (bookings s) \<longrightarrow>
      wf_bookings (bookings (snd (new_booking now rid g ci co n s)))
      \<and> wf_bookings (bookings (snd (booking_edit k rid g ci co n s)))
      \<and> wf_bookings (bookings (snd (booking_checkin k s)))
      \<and> wf_bookings (bookings (snd (booking_checkout today k s)))
      \<and> wf_bookings (bookings (snd (booking_cancel k s)))
      \<and> length (filter (occupies r d) (bookings s)) \<le> 1)
   \<and> (reachable s \<longrightarrow>
      no_overlap (bookings s) \<and> length (filter (occupies r d) (bookings s)) \<le> 1)"
proof (intro conjI impI)
  assume "reachable s"
  then have "wf_bookings (bookings s)"
    by (rule reachable_wf)
  then show "no_overlap (bookings s)" "length (filter (occupies r d) (bookings s)) \<le> 1"
    using no_overlap_occupies[of "bookings s" r d] by (simp_all add: wf_bookings_def)
next
  assume w: "wf_bookings (bookings s)"
  then show "length (filter (occupies r d) (bookings s)) \<le> 1"
    using no_overlap_occupies[of "bookings s" r d] by (simp add: wf_bookings_def)
qed (simp_all add: wf_new_booking wf_booking_edit wf_booking_checkin wf_booking_checkout
      wf_booking_cancel)

theorem no_overlap_preserved_witness:
  "wf_bookings [stay 1 1 738955 738957 Checkin, stay 2 2 738957 738959 Reservado]
   \<and> snd (booking_edit 2 1 2 738958 738960 None
        (hotel\<lparr>bookings := [stay 1 1 738955 738957 Checkin, stay 2 2 738957 738959 Reservado]\<rparr>))
       = hotel\<lparr>bookings := [stay 1 1 738955 738957 Checkin, stay 2 2 738958 738960 Reservado]\<rparr>
   \<and> wf_bookings (bookings (snd (booking_edit 2 1 2 738958 738960 None
        (hotel\<lparr>bookings := [stay 1 1 738955 738957 Checkin, stay 2 2 738957 738959 Reservado]\<rparr>))))
   \<and> length (filter (occupies 1 738956)
        [stay 1 1 738955 738957 Checkin, stay 2 2 738957 738959 Reservado]) \<le> 1
   \<and> reachable hotel \<and> no_overlap (bookings hotel)"
proof -
  let ?s = "hotel\<lparr>bookings := [stay 1 1 738955 738957 Checkin, stay 2 2 738957 738959 Reservado]\<rparr>"
  have w: "wf_bookings (bookings ?s)"
    by (simp add: wf_bookings_def clash_def active_def stay_def)
  have e: "snd (booking_edit 2 1 2 738958 738960 None ?s)
       = hotel\<lparr>bookings := [stay 1 1 738955 738957 Checkin, stay 2 2 738958 738960 Reservado]\<rparr>"
    by (simp add: booking_edit_def booking_edit_conflicts_def overlaps_def active_def
        find_booking_def first_def compute_amount_def find_room_def nights_def
        update_booking_def hotel_def stay_def)
  have r: "reachable hotel"
    by (rule reachable.initial) (simp add: hotel_def)
  note t = no_overlap_preserved[where s = ?s and k = 2 and rid = 1 and g = 2 and ci = 738958
      and co = 738960 and n = None and r = 1 and d = 738956, THEN conjunct1, THEN mp, OF w]
  have a: "wf_bookings (bookings (snd (booking_edit 2 1 2 738958 738960 None ?s)))"
    using t by blast
  have b: "length (filter (occupies 1 738956) (bookings ?s)) \<le> 1"
    using t by blast
  have c: "no_overlap (bookings hotel)"
    using no_overlap_preserved[where s = hotel, THEN conjunct2, THEN mp, OF r] by blast
  from w a b c e r show ?thesis by simp
qed

end
